theory Spec2Isabelle
  imports Complex_Main
begin

section \<open>Python values used by the notebook\<close>

text \<open>
  The notebook \<^verbatim>\<open>sagemaker/sagemaker-llm-rag.ipynb\<close> is Python. A Python \<^verbatim>\<open>str\<close> is
  modelled as a \<^typ>\<open>string\<close> whose characters are the code points below 256; an exception
  that the code can raise is a value of \<open>py_exception\<close>, and a function that can raise
  returns \<open>py_exception + 'a\<close> with \<open>Inl\<close> for the raise.
\<close>

datatype py_exception =
    IndexError
  | KeyError
  | TypeError
  | ValueError
  | AttributeError
  | TemplateError
  | Raised string

text \<open>
  The first five are the built-in exceptions that the notebook's own code can raise.
  \<open>TemplateError\<close> is the error kind that the specification gives to a failed prompt
  assembly, and \<open>Raised msg\<close> is any other exception of class \<^verbatim>\<open>Exception\<close>, raised
  by a service or by the library.
\<close>

subsection \<open>\<^verbatim>\<open>str.strip()\<close> and \<^verbatim>\<open>str.split(sep)\<close>\<close>

text \<open>
  \<^verbatim>\<open>str.strip()\<close> without argument removes the characters for which \<^verbatim>\<open>str.isspace\<close>
  holds from both ends. Below code point 256 these are 9 to 13, 28 to 32, 133 and 160.
\<close>

definition isspace :: "char \<Rightarrow> bool" where
  "isspace c = (c \<in> set [CHR 0x09, CHR 0x0A, CHR 0x0B, CHR 0x0C, CHR 0x0D,
                          CHR 0x1C, CHR 0x1D, CHR 0x1E, CHR 0x1F, CHR 0x20,
                          CHR 0x85, CHR 0xA0])"

definition strip :: "string \<Rightarrow> string" where
  "strip s = rev (dropWhile isspace (rev (dropWhile isspace s)))"

text \<open>\<^verbatim>\<open>s.split(sep)\<close> for a separator of one character: always at least one piece.\<close>

fun split :: "char \<Rightarrow> string \<Rightarrow> string list" where
  "split sep [] = [[]]"
| "split sep (c # cs) =
     (if c = sep then [] # split sep cs
      else (case split sep cs of
              [] \<Rightarrow> [[c]]
            | p # ps \<Rightarrow> (c # p) # ps))"

section \<open>\<^verbatim>\<open>format_instructions\<close>\<close>

text \<open>
  \<^verbatim>\<open>
  def format_instructions(instructions: List[Dict[str, str]]) -> List[str]:
      prompt: List[str] = []
      for user, answer in zip(instructions[::2], instructions[1::2]):
          prompt.extend(["<s>", "[INST] ", (user["content"]).strip(), " [/INST] ",
                         (answer["content"]).strip(), "</s>"])
      prompt.extend(["<s>", "[INST] ", (instructions[-1]["content"]).strip(), " [/INST] "])
      return "".join(prompt)
  \<close>
  An instruction is a \<^verbatim>\<open>Dict[str, str]\<close>: a map from keys to strings. Reading a key that
  is absent raises \<^verbatim>\<open>KeyError\<close>, and \<^verbatim>\<open>instructions[-1]\<close> on an empty list raises
  \<^verbatim>\<open>IndexError\<close>.
\<close>

type_synonym instruction = "string \<rightharpoonup> string"

definition getitem :: "instruction \<Rightarrow> string \<Rightarrow> py_exception + string" where
  "getitem d k = (case d k of None \<Rightarrow> Inl KeyError | Some v \<Rightarrow> Inr v)"

text \<open>The slices \<^verbatim>\<open>xs[::2]\<close> and \<^verbatim>\<open>xs[1::2]\<close>.\<close>

fun slice_even :: "'a list \<Rightarrow> 'a list" where
  "slice_even [] = []"
| "slice_even [x] = [x]"
| "slice_even (x # y # xs) = x # slice_even xs"

fun slice_odd :: "'a list \<Rightarrow> 'a list" where
  "slice_odd [] = []"
| "slice_odd [x] = []"
| "slice_odd (x # y # xs) = y # slice_odd xs"

text \<open>The \<^verbatim>\<open>for\<close> loop over the zipped pairs, extending \<^verbatim>\<open>prompt\<close>.\<close>

fun format_pairs ::
  "(instruction \<times> instruction) list \<Rightarrow> string list \<Rightarrow> py_exception + string list" where
  "format_pairs [] prompt = Inr prompt"
| "format_pairs ((user, answer) # ps) prompt =
     (case getitem user ''content'' of
        Inl e \<Rightarrow> Inl e
      | Inr u \<Rightarrow>
          (case getitem answer ''content'' of
             Inl e \<Rightarrow> Inl e
           | Inr a \<Rightarrow>
               format_pairs ps
                 (prompt @ [''<s>'', ''[INST] '', strip u, '' [/INST] '', strip a, ''</s>''])))"

definition format_instructions :: "instruction list \<Rightarrow> py_exception + string" where
  "format_instructions instructions =
     (case format_pairs (zip (slice_even instructions) (slice_odd instructions)) [] of
        Inl e \<Rightarrow> Inl e
      | Inr prompt \<Rightarrow>
          (if instructions = [] then Inl IndexError
           else (case getitem (last instructions) ''content'' of
                   Inl e \<Rightarrow> Inl e
                 | Inr c \<Rightarrow>
                     Inr (concat (prompt @ [''<s>'', ''[INST] '', strip c, '' [/INST] ''])))))"

definition ex_instructions :: "instruction list" where
  "ex_instructions =
     [[''role'' \<mapsto> ''user'', ''content'' \<mapsto> '' Hi ''],
      [''role'' \<mapsto> ''assistant'', ''content'' \<mapsto> ''Hello '']]"

text \<open>The six strings that one user/answer pair adds to \<^verbatim>\<open>prompt\<close>.\<close>

definition pair_segment :: "instruction \<times> instruction \<Rightarrow> string list" where
  "pair_segment p =
     [''<s>'', ''[INST] '', strip (the (fst p ''content'')), '' [/INST] '',
      strip (the (snd p ''content'')), ''</s>'']"

section \<open>The document loading loop\<close>

subsection \<open>\<^verbatim>\<open>float(str)\<close>\<close>

text \<open>
  \<^verbatim>\<open>float\<close> applied to a string strips white space and accepts
  \<^verbatim>\<open>[sign] (floatnumber | "inf" | "infinity" | "nan")\<close>, the words in any letter case, with
  \<^verbatim>\<open>
  digitpart   ::= digit (["_"] digit)*
  number      ::= [digitpart] "." digitpart | digitpart ["."]
  exponent    ::= ("e" | "E") [sign] digitpart
  floatnumber ::= number [exponent]
  \<close>
  and raises \<^verbatim>\<open>ValueError\<close> on every other string. A finite result is kept as the
  rational value of the decimal literal: the rounding to a binary double is not modelled,
  and nothing below depends on it.
\<close>

datatype pyfloat = Finite rat | Infinity bool | NaN

definition is_digit :: "char \<Rightarrow> bool" where
  "is_digit c = (c \<in> set ''0123456789'')"

definition digit_value :: "char \<Rightarrow> nat" where
  "digit_value c = of_char c - of_char (CHR ''0'')"

definition digits_value :: "string \<Rightarrow> nat" where
  "digits_value ds = foldl (\<lambda>n c. 10 * n + digit_value c) 0 ds"

text \<open>The longest \<^verbatim>\<open>digitpart\<close> at the head of a string (its digits), and the rest.\<close>

fun digitpart :: "string \<Rightarrow> string \<times> string" where
  "digitpart [] = ([], [])"
| "digitpart (c # cs) =
     (if \<not> is_digit c then ([], c # cs)
      else (case cs of
              u # d # ds \<Rightarrow>
                if u = CHR ''_'' \<and> is_digit d
                then (case digitpart (d # ds) of (a, r) \<Rightarrow> (c # a, r))
                else (case digitpart cs of (a, r) \<Rightarrow> (c # a, r))
            | _ \<Rightarrow> (case digitpart cs of (a, r) \<Rightarrow> (c # a, r))))"

definition take_sign :: "string \<Rightarrow> bool \<times> string" where
  "take_sign s =
     (case s of
        [] \<Rightarrow> (False, [])
      | c # cs \<Rightarrow>
          if c = CHR ''-'' then (True, cs)
          else if c = CHR ''+'' then (False, cs)
          else (False, s))"

definition exponent :: "string \<Rightarrow> int option" where
  "exponent s =
     (case s of
        [] \<Rightarrow> Some 0
      | c # cs \<Rightarrow>
          if c = CHR ''e'' \<or> c = CHR ''E''
          then (case take_sign cs of
                  (neg, r) \<Rightarrow>
                    (case digitpart r of
                       (ds, r') \<Rightarrow>
                         if ds \<noteq> [] \<and> r' = []
                         then Some (if neg then - int (digits_value ds) else int (digits_value ds))
                         else None))
          else None)"

definition pow10 :: "int \<Rightarrow> rat" where
  "pow10 e = (if 0 \<le> e then 10 ^ nat e else 1 / 10 ^ nat (- e))"

definition floatnumber :: "string \<Rightarrow> rat option" where
  "floatnumber s =
     (case digitpart s of
        (ip, r1) \<Rightarrow>
          (case (case r1 of
                   [] \<Rightarrow> ([], r1)
                 | c # r \<Rightarrow> if c = CHR ''.'' then digitpart r else ([], r1)) of
             (fp, r2) \<Rightarrow>
               if ip = [] \<and> fp = [] then None
               else (case exponent r2 of
                       None \<Rightarrow> None
                     | Some e \<Rightarrow>
                         Some (of_nat (digits_value (ip @ fp)) * pow10 (e - int (length fp))))))"

definition ascii_lower :: "string \<Rightarrow> string" where
  "ascii_lower s =
     map (\<lambda>c. if c \<in> set ''ABCDEFGHIJKLMNOPQRSTUVWXYZ''
               then char_of (of_char c + (32::nat)) else c) s"

definition py_float :: "string \<Rightarrow> py_exception + pyfloat" where
  "py_float s =
     (case take_sign (strip s) of
        (neg, r) \<Rightarrow>
          if ascii_lower r = ''inf'' \<or> ascii_lower r = ''infinity'' then Inr (Infinity neg)
          else if ascii_lower r = ''nan'' then Inr NaN
          else (case floatnumber r of
                  None \<Rightarrow> Inl ValueError
                | Some q \<Rightarrow> Inr (Finite (if neg then - q else q))))"

subsection \<open>Reading one file\<close>

text \<open>
  \<^verbatim>\<open>
  docs = []
  for file in glob.glob(f"data/*.txt"):
      with open(file, "r") as f:
          lines = f.readlines()
      movie_id = lines[0].split(":")[1].strip()
      title = lines[1].split(":")[1].strip()
      genres = lines[2].split(":")[1].strip()
      spoken_languages = lines[3].split(":")[1].strip()
      release_date = lines[4].split(":")[1].strip()
      rating = lines[5].split(":")[1].strip()
      if rating == "nan":
          rating = "0"
      cast = lines[6].split(":")[1].strip()
      overview = lines[7].split(":")[1].strip()
      doc = Document(
          page_content=f"{''.join(lines)}",
          metadata={
              "movie_id": movie_id,
              "rating": float(rating),
              "genres": genres.split(","),
              "spoken_languages": spoken_languages.split(","),
              "release_date": release_date,
              "cast" : cast.split(",")}
          )
      docs.append(doc)
  \<close>
  A file is given by its text as the text-mode \<^verbatim>\<open>open\<close> delivers it (decoded, line ends
  already \<^verbatim>\<open>\n\<close>). \<^verbatim>\<open>readlines\<close> cuts it after each \<^verbatim>\<open>\n\<close> and keeps the line ends.
\<close>

fun readlines :: "string \<Rightarrow> string list" where
  "readlines [] = []"
| "readlines (c # cs) =
     (if c = CHR 0x0A then [c] # readlines cs
      else (case readlines cs of
              [] \<Rightarrow> [[c]]
            | l # ls \<Rightarrow> (c # l) # ls))"

text \<open>\<^verbatim>\<open>lines[i].split(":")[1].strip()\<close>: both subscripts can raise \<^verbatim>\<open>IndexError\<close>.\<close>

definition field :: "string list \<Rightarrow> nat \<Rightarrow> py_exception + string" where
  "field lines i =
     (if i < length lines
      then (case split (CHR '':'') (lines ! i) of
              _ # v # _ \<Rightarrow> Inr (strip v)
            | _ \<Rightarrow> Inl IndexError)
      else Inl IndexError)"

record metadata =
  movie_id :: string
  rating :: pyfloat
  genres :: "string list"
  spoken_languages :: "string list"
  release_date :: string
  cast :: "string list"

record document =
  page_content :: string
  metadata :: metadata

definition load_file :: "string \<Rightarrow> py_exception + document" where
  "load_file content =
     (let lines = readlines content in
      case field lines 0 of Inl e \<Rightarrow> Inl e | Inr movie_id_v \<Rightarrow>
      case field lines 1 of Inl e \<Rightarrow> Inl e | Inr title_v \<Rightarrow>
      case field lines 2 of Inl e \<Rightarrow> Inl e | Inr genres_v \<Rightarrow>
      case field lines 3 of Inl e \<Rightarrow> Inl e | Inr spoken_languages_v \<Rightarrow>
      case field lines 4 of Inl e \<Rightarrow> Inl e | Inr release_date_v \<Rightarrow>
      case field lines 5 of Inl e \<Rightarrow> Inl e | Inr rating_v \<Rightarrow>
      case field lines 6 of Inl e \<Rightarrow> Inl e | Inr cast_v \<Rightarrow>
      case field lines 7 of Inl e \<Rightarrow> Inl e | Inr overview_v \<Rightarrow>
      case py_float (if rating_v = ''nan'' then ''0'' else rating_v) of
        Inl e \<Rightarrow> Inl e
      | Inr r \<Rightarrow>
          Inr \<lparr>page_content = concat lines,
               metadata = \<lparr>movie_id = movie_id_v,
                           rating = r,
                           genres = split (CHR '','') genres_v,
                           spoken_languages = split (CHR '','') spoken_languages_v,
                           release_date = release_date_v,
                           cast = split (CHR '','') cast_v\<rparr>\<rparr>)"

text \<open>
  The loop over the files, in the order \<^verbatim>\<open>glob\<close> lists them. Nothing in it catches an
  exception: a raise ends the loop, and \<^verbatim>\<open>docs\<close> keeps the documents appended so far.
  The result is \<^verbatim>\<open>docs\<close> and the exception that ended the cell, if any.
\<close>

fun load_docs :: "string list \<Rightarrow> document list \<Rightarrow> document list \<times> py_exception option" where
  "load_docs [] docs = (docs, None)"
| "load_docs (file # files) docs =
     (case load_file file of
        Inl e \<Rightarrow> (docs, Some e)
      | Inr doc \<Rightarrow> load_docs files (docs @ [doc]))"

text \<open>
  An input file in the sense of the specification: at least eight lines, each of the
  first eight with the \<^verbatim>\<open>:\<close> between label and value. The value of its rating line is
  what the code reads from the sixth line.
\<close>

definition has_separator :: "string \<Rightarrow> bool" where
  "has_separator l = (CHR '':'' \<in> set l)"

definition well_formed :: "string \<Rightarrow> bool" where
  "well_formed content =
     (8 \<le> length (readlines content) \<and> list_all has_separator (take 8 (readlines content)))"

definition rating_value :: "string \<Rightarrow> string" where
  "rating_value content = strip (split (CHR '':'') (readlines content ! 5) ! 1)"

definition file_with_rating :: "string \<Rightarrow> string" where
  "file_with_rating r =
     ''Movie ID: 862\<newline>Title: Toy Story\<newline>Genres: Animation,Comedy\<newline>'' @
     ''Spoken Languages: English\<newline>Release Date: 1995-10-30\<newline>Rating: '' @ r @
     ''\<newline>Cast: Tom Hanks,Tim Allen\<newline>Overview: Toys come to life.\<newline>''"

definition short_file :: string where
  "short_file = ''Movie ID: 1\<newline>Title: Untitled\<newline>''"


definition toy_story :: document where
  "toy_story =
     \<lparr>page_content = file_with_rating ''7.7'',
      metadata = \<lparr>movie_id = ''862'',
                  rating = Finite (77 / 10),
                  genres = [''Animation'', ''Comedy''],
                  spoken_languages = [''English''],
                  release_date = ''1995-10-30'',
                  cast = [''Tom Hanks'', ''Tim Allen'']\<rparr>\<rparr>"

section \<open>The LLM client: \<^verbatim>\<open>SMLLMContentHandler\<close>\<close>

subsection \<open>Values that \<^verbatim>\<open>json\<close> reads and writes\<close>

text \<open>
  The Python values that \<^verbatim>\<open>json.loads\<close> returns and \<^verbatim>\<open>json.dumps\<close> accepts. A
  \<open>PDict\<close> lists the items of a \<^verbatim>\<open>dict\<close> in insertion order; its keys are strings and
  distinct.
\<close>

datatype pyval =
    PNone
  | PBool bool
  | PInt int
  | PFloat pyfloat
  | PStr string
  | PList "pyval list"
  | PDict "(string \<times> pyval) list"

text \<open>
  \<^verbatim>\<open>v[i]\<close> with an integer and \<^verbatim>\<open>v[k]\<close> with a string, as Python evaluates them on
  these values: a list and a string are indexed by integers (negative ones count from the
  end), a dict by its keys, and nothing else can be subscripted.
\<close>

definition list_index :: "'a list \<Rightarrow> int \<Rightarrow> py_exception + 'a" where
  "list_index xs i =
     (if 0 \<le> i \<and> i < int (length xs) then Inr (xs ! nat i)
      else if i < 0 \<and> - int (length xs) \<le> i then Inr (xs ! nat (int (length xs) + i))
      else Inl IndexError)"

fun subscript_int :: "pyval \<Rightarrow> int \<Rightarrow> py_exception + pyval" where
  "subscript_int (PList xs) i = list_index xs i"
| "subscript_int (PStr s) i =
     (case list_index s i of Inl e \<Rightarrow> Inl e | Inr c \<Rightarrow> Inr (PStr [c]))"
| "subscript_int (PDict d) i = Inl KeyError"
| "subscript_int _ i = Inl TypeError"

fun subscript_str :: "pyval \<Rightarrow> string \<Rightarrow> py_exception + pyval" where
  "subscript_str (PDict d) k =
     (case map_of d k of None \<Rightarrow> Inl KeyError | Some v \<Rightarrow> Inr v)"
| "subscript_str _ k = Inl TypeError"

subsection \<open>\<^verbatim>\<open>transform_output\<close>\<close>

text \<open>
  \<^verbatim>\<open>
  def transform_output(self, output: bytes) -> str:
      response_json = json.loads(output.read().decode("utf-8"))
      return response_json[0]["generated_text"]
  \<close>
  The library call \<^verbatim>\<open>json.loads(output.read().decode("utf-8"))\<close> is the parameter
  \<open>loads\<close>: it gives the decoded value of a response body or raises.
\<close>

definition transform_output ::
  "(string \<Rightarrow> py_exception + pyval) \<Rightarrow> string \<Rightarrow> py_exception + pyval" where
  "transform_output loads output =
     (case loads output of
        Inl e \<Rightarrow> Inl e
      | Inr response_json \<Rightarrow>
          (case subscript_int response_json 0 of
             Inl e \<Rightarrow> Inl e
           | Inr first \<Rightarrow> subscript_str first ''generated_text''))"

text \<open>
  A decoded response carries the generated text where the decoder looks for it when it
  is a list whose first element is a dict with the key \<^verbatim>\<open>generated_text\<close>.
\<close>

fun has_generated_text :: "pyval \<Rightarrow> bool" where
  "has_generated_text (PList (PDict d # rest)) = (map_of d ''generated_text'' \<noteq> None)"
| "has_generated_text _ = False"

text \<open>The response body of the specification's scenario, and \<open>loads\<close> on that body.\<close>

definition not_generated_body :: string where
  \<open>not_generated_body = ''{"not_generated_text": "x"}''\<close>

definition loads_scenario :: "string \<Rightarrow> py_exception + pyval" where
  "loads_scenario body =
     (if body = not_generated_body then Inr (PDict [(''not_generated_text'', PStr ''x'')])
      else Inl ValueError)"

subsection \<open>\<^verbatim>\<open>transform_input\<close> and \<^verbatim>\<open>model_params\<close>\<close>

text \<open>
  \<^verbatim>\<open>
  def transform_input(self, prompt: str, model_kwargs: Dict) -> bytes:
      input_data = json.dumps([[{"role" : "system", "content" : "You are a movie assistant."},
                              {"role" : "user", "content" : prompt}]])
      input_str = json.dumps({"inputs" : input_data, "parameters" : {**model_kwargs}})
      return input_str.encode('utf-8')
  \<close>
  The library function \<^verbatim>\<open>json.dumps\<close> is the parameter \<open>dumps\<close>. Its output is ASCII, so
  \<^verbatim>\<open>encode('utf-8')\<close> keeps every character as one byte. \<open>request_parameters\<close> is the
  dict \<^verbatim>\<open>{**model_kwargs}\<close>, \<open>request_payload\<close> the dict given to the outer \<^verbatim>\<open>json.dumps\<close>.
\<close>

definition request_parameters :: "(string \<times> pyval) list \<Rightarrow> pyval" where
  "request_parameters model_kwargs = PDict model_kwargs"

definition request_payload ::
  "(pyval \<Rightarrow> string) \<Rightarrow> string \<Rightarrow> (string \<times> pyval) list \<Rightarrow> pyval" where
  "request_payload dumps prompt model_kwargs =
     (let input_data =
            dumps (PList [PList
              [PDict [(''role'', PStr ''system''), (''content'', PStr ''You are a movie assistant.'')],
               PDict [(''role'', PStr ''user''), (''content'', PStr prompt)]]])
      in PDict [(''inputs'', PStr input_data), (''parameters'', request_parameters model_kwargs)])"

definition transform_input ::
  "(pyval \<Rightarrow> string) \<Rightarrow> string \<Rightarrow> (string \<times> pyval) list \<Rightarrow> string" where
  "transform_input dumps prompt model_kwargs = dumps (request_payload dumps prompt model_kwargs)"

text \<open>
  \<^verbatim>\<open>
  model_params = {
      "do_sample": True,
      "top_p": 0.9,
      "temperature": 0.1,
      "max_new_tokens": 1000,
      "stop": ["<|endoftext|>", "</s>"],
      "repetition_penalty": 1.1
  }
  \<close>
\<close>

definition model_params :: "(string \<times> pyval) list" where
  "model_params =
     [(''do_sample'', PBool True),
      (''top_p'', PFloat (Finite (9 / 10))),
      (''temperature'', PFloat (Finite (1 / 10))),
      (''max_new_tokens'', PInt 1000),
      (''stop'', PList [PStr ''<|endoftext|>'', PStr ''</s>'']),
      (''repetition_penalty'', PFloat (Finite (11 / 10)))]"

definition dict_keys :: "pyval \<Rightarrow> string list" where
  "dict_keys v = (case v of PDict d \<Rightarrow> map fst d | _ \<Rightarrow> [])"

section \<open>The chat widget: \<^verbatim>\<open>ChatUX\<close>\<close>

text \<open>
  \<^verbatim>\<open>
  class ChatUX:
      def __init__(self):
          memory = ConversationBufferMemory(memory_key='chat_history', return_messages=True,
                                            output_key='answer')
          self.qa = ConversationalRetrievalChain.from_llm(llm=llm, memory=memory, ...)
          self.name = None
          self.b=None
          self.out = ipw.Output()

      def start_chat(self):
          print("Let's chat!")
          display(self.out)
          self.chat(None)

      def chat(self, _):
          if self.name is None:
              prompt = ""
          else:
              prompt = self.name.value
          if 'q' == prompt or 'quit' == prompt or 'Q' == prompt:
              print("Thank you , that was a nice chat !!")
              return
          elif len(prompt) > 0:
              with self.out:
                  thinking = ipw.Label(value=f"Thinking...")
                  display(thinking)
                  try:
                      response = self.qa({"question" : prompt})
                      result = response['answer']
                  except Exception as e:
                      print(e)
                      result = "No answer"
                  thinking.value=""
                  print(f"AI: {result}")
                  self.name.disabled = True
                  self.b.disabled = True
                  self.name = None

          if self.name is None:
              with self.out:
                  self.name = ipw.Text(description="You: ", placeholder='q to quit')
                  self.b = ipw.Button(description="Send")
                  self.b.on_click(self.chat)
                  display(ipw.Box(children=(self.name, self.b)))
  \<close>
  The widgets are objects shared between the \<^verbatim>\<open>ChatUX\<close> object and the display, so they
  live in a store: \<open>texts\<close>, \<open>buttons\<close> and \<open>labels\<close> hold every widget created so far, and
  \<^verbatim>\<open>self.name\<close> and \<^verbatim>\<open>self.b\<close> are \<^verbatim>\<open>None\<close> or the position of a widget in its store.
  \<open>self_out\<close> is what the output widget \<^verbatim>\<open>self.out\<close> has captured, \<open>stdout\<close> what was
  printed outside of it, and \<open>qa_memory\<close> the state that the chain \<^verbatim>\<open>self.qa\<close> keeps
  between calls.
\<close>

record text_widget =
  t_value :: string
  t_disabled :: bool

record button_widget =
  b_disabled :: bool

datatype out_item =
    Show_Label nat
  | Show_Box nat nat
  | Printed string
  | Printed_Exception py_exception

record 'm chat_ux =
  qa_memory :: 'm
  self_name :: "nat option"
  self_b :: "nat option"
  texts :: "text_widget list"
  buttons :: "button_widget list"
  labels :: "string list"
  self_out :: "out_item list"
  stdout :: "string list"

text \<open>
  The chain \<^verbatim>\<open>self.qa\<close> is library code and a parameter here: called with its state and
  the question, it returns the \<^verbatim>\<open>answer\<close> entry of its response or raises an exception
  of class \<^verbatim>\<open>Exception\<close>, and leaves a state. (\<^verbatim>\<open>KeyboardInterrupt\<close> and \<^verbatim>\<open>SystemExit\<close>
  are not of class \<^verbatim>\<open>Exception\<close>; they are requests to the interpreter and no outcome
  of the chain in this model.)
\<close>

type_synonym 'm chain = "'m \<Rightarrow> string \<Rightarrow> (py_exception + string) \<times> 'm"

definition ChatUX_init :: "'m \<Rightarrow> 'm chat_ux" where
  "ChatUX_init m =
     \<lparr>qa_memory = m, self_name = None, self_b = None, texts = [], buttons = [], labels = [],
      self_out = [], stdout = []\<rparr>"

text \<open>The last block of \<^verbatim>\<open>chat\<close>: a fresh text box and button when \<^verbatim>\<open>self.name\<close> is \<^verbatim>\<open>None\<close>.\<close>

definition new_input_box :: "'m chat_ux \<Rightarrow> 'm chat_ux" where
  "new_input_box s =
     (case self_name s of
        Some n \<Rightarrow> s
      | None \<Rightarrow>
          s\<lparr>self_name := Some (length (texts s)),
            self_b := Some (length (buttons s)),
            texts := texts s @ [\<lparr>t_value = [], t_disabled = False\<rparr>],
            buttons := buttons s @ [\<lparr>b_disabled = False\<rparr>],
            self_out := self_out s @ [Show_Box (length (texts s)) (length (buttons s))]\<rparr>)"

text \<open>
  The \<^verbatim>\<open>elif\<close> branch, for the text box \<open>n\<close> that \<^verbatim>\<open>self.name\<close> refers to.
  \<^verbatim>\<open>self.b.disabled = True\<close> raises \<^verbatim>\<open>AttributeError\<close> when \<^verbatim>\<open>self.b\<close> is \<^verbatim>\<open>None\<close>.
\<close>

definition process_turn :: "'m chain \<Rightarrow> string \<Rightarrow> nat \<Rightarrow> 'm chat_ux \<Rightarrow> py_exception + 'm chat_ux" where
  "process_turn qa prompt n s =
     (let thinking = length (labels s);
          s1 = s\<lparr>labels := labels s @ [''Thinking...''],
                 self_out := self_out s @ [Show_Label thinking]\<rparr>
      in case qa (qa_memory s1) prompt of
           (outcome, m) \<Rightarrow>
             (let s2 = (case outcome of
                          Inr answer \<Rightarrow> s1\<lparr>qa_memory := m\<rparr>
                        | Inl e \<Rightarrow>
                            s1\<lparr>qa_memory := m, self_out := self_out s1 @ [Printed_Exception e]\<rparr>);
                  result = (case outcome of Inr answer \<Rightarrow> answer | Inl e \<Rightarrow> ''No answer'');
                  s3 = s2\<lparr>labels := (labels s2)[thinking := []],
                          self_out := self_out s2 @ [Printed (''AI: '' @ result)]\<rparr>;
                  s4 = s3\<lparr>texts := (texts s3)[n := (texts s3 ! n)\<lparr>t_disabled := True\<rparr>]\<rparr>
              in case self_b s4 of
                   None \<Rightarrow> Inl AttributeError
                 | Some k \<Rightarrow>
                     Inr (s4\<lparr>buttons := (buttons s4)[k := (buttons s4 ! k)\<lparr>b_disabled := True\<rparr>],
                              self_name := None\<rparr>)))"

text \<open>
  \<^verbatim>\<open>chat\<close>. When \<^verbatim>\<open>self.name\<close> is \<^verbatim>\<open>None\<close> the prompt is the empty string, which is no
  quit word and has length 0, so only the last block runs.
\<close>

definition chat :: "'m chain \<Rightarrow> 'm chat_ux \<Rightarrow> py_exception + 'm chat_ux" where
  "chat qa s =
     (case self_name s of
        None \<Rightarrow> Inr (new_input_box s)
      | Some n \<Rightarrow>
          (let prompt = t_value (texts s ! n)
           in if ''q'' = prompt \<or> ''quit'' = prompt \<or> ''Q'' = prompt
              then Inr (s\<lparr>stdout := stdout s @ [''Thank you , that was a nice chat !!'']\<rparr>)
              else if length prompt > 0
              then (case process_turn qa prompt n s of
                      Inl e \<Rightarrow> Inl e
                    | Inr s' \<Rightarrow> Inr (new_input_box s'))
              else Inr (new_input_box s)))"

definition start_chat :: "'m chain \<Rightarrow> 'm chat_ux \<Rightarrow> py_exception + 'm chat_ux" where
  "start_chat qa s = chat qa (s\<lparr>stdout := stdout s @ [''Let'' @ [CHR 0x27] @ ''s chat!'']\<rparr>)"

text \<open>
  What the user can do: type into a text box, or click a button, which calls \<^verbatim>\<open>chat\<close>
  (every button is bound to it with \<^verbatim>\<open>on_click\<close>). A disabled widget takes no input.
\<close>

datatype event = Type_Text nat string | Click nat

definition ui_step :: "'m chain \<Rightarrow> 'm chat_ux \<Rightarrow> event \<Rightarrow> py_exception + 'm chat_ux" where
  "ui_step qa s ev =
     (case ev of
        Type_Text i v \<Rightarrow>
          if i < length (texts s) \<and> \<not> t_disabled (texts s ! i)
          then Inr (s\<lparr>texts := (texts s)[i := (texts s ! i)\<lparr>t_value := v\<rparr>]\<rparr>)
          else Inr s
      | Click k \<Rightarrow>
          if k < length (buttons s) \<and> \<not> b_disabled (buttons s ! k)
          then chat qa s
          else Inr s)"

fun run :: "'m chain \<Rightarrow> event list \<Rightarrow> 'm chat_ux \<Rightarrow> py_exception + 'm chat_ux" where
  "run qa [] s = Inr s"
| "run qa (ev # evs) s =
     (case ui_step qa s ev of
        Inl e \<Rightarrow> Inl e
      | Inr s' \<Rightarrow> run qa evs s')"

text \<open>\<^verbatim>\<open>chat = ChatUX(); chat.start_chat()\<close>, followed by the user's events.\<close>

definition session :: "'m chain \<Rightarrow> 'm \<Rightarrow> event list \<Rightarrow> py_exception + 'm chat_ux" where
  "session qa m evs =
     (case start_chat qa (ChatUX_init m) of
        Inl e \<Rightarrow> Inl e
      | Inr s \<Rightarrow> run qa evs s)"

text \<open>
  The chat awaits input when \<^verbatim>\<open>self.name\<close> and \<^verbatim>\<open>self.b\<close> are widgets that take input.
  \<open>ux_ok\<close> says that the two references are set together and point into the store.
\<close>

definition awaiting_input :: "'m chat_ux \<Rightarrow> bool" where
  "awaiting_input s =
     (case self_name s of
        None \<Rightarrow> False
      | Some n \<Rightarrow>
          (case self_b s of
             None \<Rightarrow> False
           | Some k \<Rightarrow>
               n < length (texts s) \<and> k < length (buttons s) \<and>
               \<not> t_disabled (texts s ! n) \<and> \<not> b_disabled (buttons s ! k)))"

definition ux_ok :: "'m chat_ux \<Rightarrow> bool" where
  "ux_ok s =
     (case self_name s of
        None \<Rightarrow> True
      | Some n \<Rightarrow>
          n < length (texts s) \<and>
          (case self_b s of None \<Rightarrow> False | Some k \<Rightarrow> k < length (buttons s)))"

text \<open>A chain that answers \<^verbatim>\<open>ok\<close> and keeps the list of the questions it was called with.\<close>

definition logging_qa :: "string list chain" where
  "logging_qa asked question = (Inr ''ok'', asked @ [question])"

text \<open>A chain that raises on every call, and counts its calls.\<close>

definition raising_qa :: "nat chain" where
  "raising_qa calls question = (Inl (Raised ''endpoint unreachable''), Suc calls)"

text \<open>
  The state right after \<^verbatim>\<open>start_chat\<close>, once the user has typed \<open>v\<close> into the first text
  box; \<open>m\<close> is the state of the chain.
\<close>

definition typed_state :: "string \<Rightarrow> 'm \<Rightarrow> 'm chat_ux" where
  "typed_state v m =
     \<lparr>qa_memory = m, self_name = Some 0, self_b = Some 0,
      texts = [\<lparr>t_value = v, t_disabled = False\<rparr>],
      buttons = [\<lparr>b_disabled = False\<rparr>],
      labels = [],
      self_out = [Show_Box 0 0],
      stdout = [''Let'' @ [CHR 0x27] @ ''s chat!'']\<rparr>"

section \<open>The prompt template and the retrieval chain\<close>

text \<open>
  The notebook declares the template and hands it, with the memory, to the library:
  \<^verbatim>\<open>
  PROMPT = PromptTemplate(
      template=prompt_template, input_variables=["chat_history", "context", "question"]
  )
  memory = ConversationBufferMemory(memory_key='chat_history', return_messages=True,
                                    output_key='answer')
  qa = ConversationalRetrievalChain.from_llm(llm=llm, memory=memory, retriever=...,
      return_source_documents=True, combine_docs_chain_kwargs={"prompt": PROMPT})
  \<close>
  \<open>prompt_template\<close> is the text of the notebook, after its \<^verbatim>\<open>.strip()\<close>.
\<close>

definition prompt_template :: string where
  \<open>prompt_template =
     ''Given the following context and conversation history:\<newline>\<newline>'' @
     ''Context: \<newline>{context}\<newline>\<newline>\<newline>'' @
     ''Conversation History: \<newline>{chat_history}\<newline>\<newline>'' @
     ''Answer the question as truthfully as possible. '' @
     ''Your answer must only be coming from the context given above. '' @
     ''If the answer is not found in the given context. '' @
     ''Say "I don'' @ [CHR 0x27] @ ''t know"\<newline>'' @
     ''Your answer must be in a summary and direct in a concise manner. '' @
     ''It'' @ [CHR 0x27] @ ''s critical that you are only allowed to use the context '' @
     ''given to you in answering the question.\<newline>\<newline>'' @
     ''User question: {question}''\<close>

text \<open>The three stretches of literal text of the template, around its slots.\<close>

definition template_head :: string where
  "template_head =
     ''Given the following context and conversation history:\<newline>\<newline>Context: \<newline>''"

definition template_mid :: string where
  "template_mid = ''\<newline>\<newline>\<newline>Conversation History: \<newline>''"

definition template_tail :: string where
  \<open>template_tail =
     ''\<newline>\<newline>Answer the question as truthfully as possible. '' @
     ''Your answer must only be coming from the context given above. '' @
     ''If the answer is not found in the given context. '' @
     ''Say "I don'' @ [CHR 0x27] @ ''t know"\<newline>'' @
     ''Your answer must be in a summary and direct in a concise manner. '' @
     ''It'' @ [CHR 0x27] @ ''s critical that you are only allowed to use the context '' @
     ''given to you in answering the question.\<newline>\<newline>'' @
     ''User question: ''\<close>

definition input_variables :: "string list" where
  "input_variables = [''chat_history'', ''context'', ''question'']"

text \<open>
  Modelled from the spec: the substitution that \<^verbatim>\<open>PromptTemplate\<close> performs is library
  code. The specification describes a deterministic string template with named slots,
  whose substitution fails with TemplateError when a required slot is missing.
  \<open>substitute\<close> copies the template and puts the value of a slot in place of each
  \<^verbatim>\<open>{name}\<close>; its first argument is the part of a slot name read so far, if any.
\<close>

fun substitute :: "string option \<Rightarrow> string \<Rightarrow> (string \<rightharpoonup> string) \<Rightarrow> py_exception + string" where
  "substitute None [] slots = Inr []"
| "substitute (Some name) [] slots = Inl TemplateError"
| "substitute None (c # cs) slots =
     (if c = CHR ''{'' then substitute (Some []) cs slots
      else (case substitute None cs slots of
              Inl e \<Rightarrow> Inl e
            | Inr rest \<Rightarrow> Inr (c # rest)))"
| "substitute (Some name) (c # cs) slots =
     (if c = CHR ''}''
      then (case slots name of
              None \<Rightarrow> Inl TemplateError
            | Some v \<Rightarrow>
                (case substitute None cs slots of
                   Inl e \<Rightarrow> Inl e
                 | Inr rest \<Rightarrow> Inr (v @ rest)))
      else substitute (Some (name @ [c])) cs slots)"

text \<open>
  Modelled from the spec: the prompt assembler is the substitution applied to the
  notebook's template.
\<close>

definition assemble_prompt :: "(string \<rightharpoonup> string) \<Rightarrow> py_exception + string" where
  "assemble_prompt slots = substitute None prompt_template slots"

text \<open>
  The conversation memory is the list of the (question, answer) pairs of the turns so
  far. The retriever, the LLM client and the serialization of the memory for the prompt
  are parameters of the chain.
\<close>

type_synonym conversation_memory = "(string \<times> string) list"

record chain_env =
  retriever :: "string \<Rightarrow> py_exception + string list"
  llm :: "string \<Rightarrow> py_exception + string"
  serialize :: "conversation_memory \<Rightarrow> string"

text \<open>
  Modelled from the spec: the chain and its memory are library code
  (\<^verbatim>\<open>ConversationalRetrievalChain\<close>, \<^verbatim>\<open>ConversationBufferMemory\<close>). The specification
  describes one turn as retriever query, then prompt assembly from the concatenated
  retrieved texts, the serialized memory and the question, then the LLM client, then the
  append of the (question, answer) pair to the memory. The retriever, the LLM client and
  the serialization of the memory are parameters.
\<close>

definition conversational_chain :: "chain_env \<Rightarrow> conversation_memory chain" where
  "conversational_chain env memory question =
     (case retriever env question of
        Inl e \<Rightarrow> (Inl e, memory)
      | Inr docs \<Rightarrow>
          (case assemble_prompt [''context'' \<mapsto> concat docs,
                                 ''chat_history'' \<mapsto> serialize env memory,
                                 ''question'' \<mapsto> question] of
             Inl e \<Rightarrow> (Inl e, memory)
           | Inr prompt \<Rightarrow>
               (case llm env prompt of
                  Inl e \<Rightarrow> (Inl e, memory)
                | Inr answer \<Rightarrow> (Inr answer, memory @ [(question, answer)]))))"

text \<open>
  A sequence of calls \<^verbatim>\<open>qa({"question": q})\<close>: the outcome of each, and the memory at the
  end. \<open>completed_turns\<close> lists the turns that returned an answer, in the order asked.
\<close>

fun run_chain ::
  "chain_env \<Rightarrow> conversation_memory \<Rightarrow> string list \<Rightarrow>
   (py_exception + string) list \<times> conversation_memory" where
  "run_chain env memory [] = ([], memory)"
| "run_chain env memory (q # qs) =
     (case conversational_chain env memory q of
        (outcome, memory') \<Rightarrow>
          (case run_chain env memory' qs of
             (outcomes, memory'') \<Rightarrow> (outcome # outcomes, memory'')))"

fun completed_turns :: "string list \<Rightarrow> (py_exception + string) list \<Rightarrow> conversation_memory" where
  "completed_turns (q # qs) (Inr answer # outcomes) = (q, answer) # completed_turns qs outcomes"
| "completed_turns (q # qs) (Inl e # outcomes) = completed_turns qs outcomes"
| "completed_turns _ _ = []"

text \<open>
  Two environments to run the chain in: one whose LLM client echoes the last line of the
  prompt, and one whose LLM client raises when the question mentions \<^verbatim>\<open>Jumanji\<close>.
\<close>

definition last_line :: "string \<Rightarrow> string" where
  "last_line s = rev (takeWhile (\<lambda>c. c \<noteq> CHR 0x0A) (rev s))"

definition echo_env :: chain_env where
  "echo_env =
     \<lparr>retriever = (\<lambda>q. Inr [''Toy Story (1995)'']),
      llm = (\<lambda>p. Inr (last_line p)),
      serialize = (\<lambda>m. concat (map (\<lambda>(q, a). q @ '' / '' @ a @ ''; '') m))\<rparr>"

definition flaky_env :: chain_env where
  "flaky_env =
     \<lparr>retriever = (\<lambda>q. Inr [''Toy Story (1995)'']),
      llm = (\<lambda>p. if last_line p = ''User question: Jumanji'' then Inl (Raised ''timeout'')
                   else Inr (last_line p)),
      serialize = (\<lambda>m. concat (map (\<lambda>(q, a). q @ '' / '' @ a @ ''; '') m))\<rparr>"

section \<open>Properties\<close>

subsection \<open>\<^verbatim>\<open>format_instructions\<close>\<close>

lemma set_slice_even: "set (slice_even xs) \<subseteq> set xs"
  by (induction xs rule: slice_even.induct) auto

lemma set_slice_odd: "set (slice_odd xs) \<subseteq> set xs"
  by (induction xs rule: slice_odd.induct) auto

lemma format_pairs_total:
  "\<forall>p\<in>set ps. fst p ''content'' \<noteq> None \<and> snd p ''content'' \<noteq> None \<Longrightarrow>
   format_pairs ps prompt = Inr (prompt @ concat (map pair_segment ps))"
proof (induction ps arbitrary: prompt)
  case Nil
  show ?case by simp
next
  case (Cons p ps)
  obtain user answer where p: "p = (user, answer)" by (cases p)
  from Cons.prems p obtain u a where ua: "user ''content'' = Some u" "answer ''content'' = Some a"
    by auto
  from Cons.prems have rest: "\<forall>p\<in>set ps. fst p ''content'' \<noteq> None \<and> snd p ''content'' \<noteq> None"
    by simp
  show ?case
    using Cons.IH [OF rest] by (simp add: p ua getitem_def pair_segment_def)
qed

text \<open>On a list of even length the last zipped pair ends in the last element.\<close>

lemma zip_slices_last:
  "xs \<noteq> [] \<Longrightarrow> even (length xs) \<Longrightarrow>
   \<exists>ps u. zip (slice_even xs) (slice_odd xs) = ps @ [(u, last xs)] \<and> u \<in> set xs"
proof (induction xs rule: slice_even.induct)
  case 1
  then show ?case by simp
next
  case (2 x)
  then show ?case by simp
next
  case (3 x y xs)
  show ?case
  proof (cases "xs = []")
    case True
    then show ?thesis by simp
  next
    case False
    with 3 obtain ps u where "zip (slice_even xs) (slice_odd xs) = ps @ [(u, last xs)]" "u \<in> set xs"
      by auto
    with False show ?thesis
      by (intro exI [of _ "(x, y) # ps"] exI [of _ u]) simp
  qed
qed

text \<open>
  Claim C9. For every non-empty instruction list (each element with a \<^verbatim>\<open>content\<close> entry,
  which the function reads), \<^verbatim>\<open>format_instructions\<close> returns a string that ends in
  \<^verbatim>\<open><s>[INST] \<close>, the stripped content of the last element and \<^verbatim>\<open> [/INST] \<close>. When the
  list has even length, that content stands twice at the end of the output: as the answer
  closing the last pair, and again in the trailing open \<^verbatim>\<open>[INST]\<close> block.
\<close>

theorem format_instructions_final_segment:
  assumes nonempty: "instructions \<noteq> []"
    and content: "\<forall>d\<in>set instructions. d ''content'' \<noteq> None"
  shows "\<exists>c. last instructions ''content'' = Some c \<and>
           (\<exists>pre. format_instructions instructions =
                     Inr (pre @ ''<s>[INST] '' @ strip c @ '' [/INST] '')) \<and>
           (even (length instructions) \<longrightarrow>
              (\<exists>pre u. format_instructions instructions =
                     Inr (pre @ ''<s>[INST] '' @ strip u @ '' [/INST] '' @ strip c @ ''</s>'' @
                          ''<s>[INST] '' @ strip c @ '' [/INST] '')))"
proof -
  let ?ps = "zip (slice_even instructions) (slice_odd instructions)"
  from nonempty content obtain c where c: "last instructions ''content'' = Some c"
    using last_in_set by blast
  have "\<forall>p\<in>set ?ps. fst p ''content'' \<noteq> None \<and> snd p ''content'' \<noteq> None"
  proof
    fix p assume "p \<in> set ?ps"
    then have "fst p \<in> set instructions" "snd p \<in> set instructions"
      using set_slice_even [of instructions] set_slice_odd [of instructions]
      by (metis prod.collapse set_zip_leftD subsetD, metis prod.collapse set_zip_rightD subsetD)
    with content show "fst p ''content'' \<noteq> None \<and> snd p ''content'' \<noteq> None" by blast
  qed
  then have pairs: "format_pairs ?ps [] = Inr (concat (map pair_segment ?ps))"
    using format_pairs_total [of ?ps "[]"] by simp
  have out: "format_instructions instructions =
               Inr (concat (concat (map pair_segment ?ps)) @ ''<s>[INST] '' @ strip c @ '' [/INST] '')"
    using nonempty by (simp add: format_instructions_def pairs c getitem_def)
  have even_case: "\<exists>pre u. format_instructions instructions =
                     Inr (pre @ ''<s>[INST] '' @ strip u @ '' [/INST] '' @ strip c @ ''</s>'' @
                          ''<s>[INST] '' @ strip c @ '' [/INST] '')"
    if ev: "even (length instructions)"
  proof -
    from zip_slices_last [OF nonempty ev] obtain ps d
      where ps: "?ps = ps @ [(d, last instructions)]" and d: "d \<in> set instructions"
      by blast
    have "concat (concat (map pair_segment ?ps)) =
            concat (concat (map pair_segment ps)) @ ''<s>[INST] '' @
              strip (the (d ''content'')) @ '' [/INST] '' @ strip c @ ''</s>''"
      by (simp add: ps pair_segment_def c)
    with out show ?thesis by (simp only: append_assoc) blast
  qed
  from c out even_case show ?thesis by blast
qed

theorem format_instructions_final_segment_witness:
  "ex_instructions \<noteq> [] \<and> list_all (\<lambda>d. d ''content'' \<noteq> None) ex_instructions \<and>
   even (length ex_instructions) \<and>
   (\<exists>c. last ex_instructions ''content'' = Some c \<and>
      (\<exists>pre. format_instructions ex_instructions =
                Inr (pre @ ''<s>[INST] '' @ strip c @ '' [/INST] '')) \<and>
      (\<exists>pre u. format_instructions ex_instructions =
                Inr (pre @ ''<s>[INST] '' @ strip u @ '' [/INST] '' @ strip c @ ''</s>'' @
                     ''<s>[INST] '' @ strip c @ '' [/INST] '')))"
proof -
  have h1: "ex_instructions \<noteq> []"
    by (simp add: ex_instructions_def)
  have h2: "\<forall>d\<in>set ex_instructions. d ''content'' \<noteq> None"
    by (simp add: ex_instructions_def)
  have h3: "even (length ex_instructions)"
    by (simp add: ex_instructions_def)
  from format_instructions_final_segment [OF h1 h2] h1 h2 h3 show ?thesis
    by (simp only: list_all_iff) blast
qed

lemma format_instructions_example:
  "format_instructions ex_instructions =
     Inr ''<s>[INST] Hi [/INST] Hello</s><s>[INST] Hello [/INST] ''"
  by (simp add: ex_instructions_def format_instructions_def getitem_def strip_def isspace_def)

lemma format_instructions_empty: "format_instructions [] = Inl IndexError"
  by (simp add: format_instructions_def)

subsection \<open>The document loading loop\<close>

lemma split_nonempty: "split sep s \<noteq> []"
  by (induction s) (auto split: list.splits)

lemma split_second: "(\<exists>a b r. split sep s = a # b # r) \<longleftrightarrow> sep \<in> set s"
proof (induction s)
  case Nil
  show ?case by simp
next
  case (Cons c cs)
  show ?case
  proof (cases "c = sep")
    case True
    then show ?thesis using split_nonempty [of sep cs] by (cases "split sep cs") auto
  next
    case False
    then show ?thesis using Cons split_nonempty [of sep cs]
      by (cases "split sep cs") auto
  qed
qed

lemma field_present:
  assumes "i < length lines" and "has_separator (lines ! i)"
  shows "field lines i = Inr (strip (split (CHR '':'') (lines ! i) ! 1))"
proof -
  from assms(2) obtain a b r where "split (CHR '':'') (lines ! i) = a # b # r"
    using split_second [of "CHR '':''" "lines ! i"] by (auto simp: has_separator_def)
  with assms(1) show ?thesis by (simp add: field_def)
qed

lemma field_absent:
  assumes "\<not> (i < length lines \<and> has_separator (lines ! i))"
  shows "field lines i = Inl IndexError"
proof (cases "i < length lines")
  case False
  then show ?thesis by (simp add: field_def)
next
  case True
  with assms have "\<not> (\<exists>a b r. split (CHR '':'') (lines ! i) = a # b # r)"
    using split_second [of "CHR '':''" "lines ! i"] by (simp add: has_separator_def)
  with True show ?thesis
    by (simp add: field_def split: list.splits)
qed

lemma well_formed_iff:
  "well_formed content \<longleftrightarrow>
     (\<forall>i<8. i < length (readlines content) \<and> has_separator (readlines content ! i))"
proof
  assume wf: "well_formed content"
  show "\<forall>i<8. i < length (readlines content) \<and> has_separator (readlines content ! i)"
  proof (intro allI impI)
    fix i :: nat assume i: "i < 8"
    with wf have len: "i < length (take 8 (readlines content))"
      by (simp add: well_formed_def)
    from wf have "has_separator (take 8 (readlines content) ! i)"
      using len unfolding well_formed_def list_all_length by blast
    with i len show "i < length (readlines content) \<and> has_separator (readlines content ! i)"
      by simp
  qed
next
  assume all: "\<forall>i<8. i < length (readlines content) \<and> has_separator (readlines content ! i)"
  then have "7 < length (readlines content)" by simp
  then have len: "8 \<le> length (readlines content)" by simp
  have "list_all has_separator (take 8 (readlines content))"
    unfolding list_all_length using all by simp
  with len show "well_formed content" by (simp add: well_formed_def)
qed

lemma field_error: "field lines i = Inl e \<Longrightarrow> e = IndexError"
  by (auto simp: field_def split: if_splits list.splits)

lemma py_float_error: "py_float s = Inl e \<Longrightarrow> e = ValueError"
  by (auto simp: py_float_def split: prod.splits if_splits option.splits)

lemma py_float_zero: "py_float ''0'' = Inr (Finite 0)"
  by code_simp

lemma load_file_well_formed:
  assumes "well_formed content"
  shows "load_file content =
           (case py_float (if rating_value content = ''nan'' then ''0'' else rating_value content) of
              Inl e \<Rightarrow> Inl e
            | Inr r \<Rightarrow>
                Inr \<lparr>page_content = concat (readlines content),
                     metadata =
                       \<lparr>movie_id = strip (split (CHR '':'') (readlines content ! 0) ! 1),
                        rating = r,
                        genres = split (CHR '','') (strip (split (CHR '':'') (readlines content ! 2) ! 1)),
                        spoken_languages =
                          split (CHR '','') (strip (split (CHR '':'') (readlines content ! 3) ! 1)),
                        release_date = strip (split (CHR '':'') (readlines content ! 4) ! 1),
                        cast = split (CHR '','') (strip (split (CHR '':'') (readlines content ! 6) ! 1))\<rparr>\<rparr>)"
proof -
  let ?ls = "readlines content"
  have f: "field ?ls i = Inr (strip (split (CHR '':'') (?ls ! i) ! 1))"
    if "i < 8" for i
    using assms that field_present [of i ?ls] by (simp add: well_formed_iff)
  have fs: "field ?ls 0 = Inr (strip (split (CHR '':'') (?ls ! 0) ! 1))"
    "field ?ls 1 = Inr (strip (split (CHR '':'') (?ls ! 1) ! 1))"
    "field ?ls 2 = Inr (strip (split (CHR '':'') (?ls ! 2) ! 1))"
    "field ?ls 3 = Inr (strip (split (CHR '':'') (?ls ! 3) ! 1))"
    "field ?ls 4 = Inr (strip (split (CHR '':'') (?ls ! 4) ! 1))"
    "field ?ls 5 = Inr (strip (split (CHR '':'') (?ls ! 5) ! 1))"
    "field ?ls 6 = Inr (strip (split (CHR '':'') (?ls ! 6) ! 1))"
    "field ?ls 7 = Inr (strip (split (CHR '':'') (?ls ! 7) ! 1))"
    by (rule f, simp)+
  show ?thesis
    unfolding load_file_def Let_def fs rating_value_def by (simp del: One_nat_def)
qed

text \<open>
  Claim C1, as the code has it. For every input file with eight well-formed lines: when the
  value of the rating line is the literal \<^verbatim>\<open>nan\<close>, a document is produced and its rating
  is 0; for every other value the rating is what \<^verbatim>\<open>float\<close> returns for it, and when
  \<^verbatim>\<open>float\<close> rejects the value the load raises \<^verbatim>\<open>ValueError\<close> and produces no document.
\<close>

theorem load_file_rating:
  assumes "well_formed content"
  shows "(rating_value content = ''nan'' \<longrightarrow>
            (\<exists>d. load_file content = Inr d \<and> rating (metadata d) = Finite 0)) \<and>
         (rating_value content \<noteq> ''nan'' \<longrightarrow>
            (case py_float (rating_value content) of
               Inl e \<Rightarrow> load_file content = Inl ValueError
             | Inr r \<Rightarrow> (\<exists>d. load_file content = Inr d \<and> rating (metadata d) = r)))"
  using py_float_error [of "rating_value content"]
  by (auto simp: load_file_well_formed [OF assms] py_float_zero split: sum.splits)

lemma load_file_malformed:
  assumes "i < 8" and "\<not> (i < length (readlines content) \<and> has_separator (readlines content ! i))"
  shows "load_file content = Inl IndexError"
proof -
  let ?ls = "readlines content"
  have bad: "field ?ls i = Inl IndexError"
    using assms(2) by (rule field_absent)
  from assms(1) have "i = 0 \<or> i = 1 \<or> i = 2 \<or> i = 3 \<or> i = 4 \<or> i = 5 \<or> i = 6 \<or> i = 7"
    by arith
  then show ?thesis
    using bad
    by (elim disjE) (auto simp: load_file_def Let_def split: sum.splits dest: field_error)
qed

lemma load_docs_append:
  "load_docs (pre @ files) docs =
     (case load_docs pre docs of
        (docs', None) \<Rightarrow> load_docs files docs'
      | (docs', Some e) \<Rightarrow> (docs', Some e))"
  by (induction pre arbitrary: docs) (auto split: sum.splits)

text \<open>
  Claim C2, as the code has it. A file with fewer than eight lines, or with one of its
  first eight lines lacking the \<^verbatim>\<open>:\<close>, raises \<^verbatim>\<open>IndexError\<close>, and the loading loop ends
  at that file: \<^verbatim>\<open>docs\<close> holds the documents of the files before it, and no later file is
  read.
\<close>

theorem malformed_file_stops_load:
  assumes malformed: "length (readlines content) < 8 \<or>
                      (\<exists>l\<in>set (take 8 (readlines content)). \<not> has_separator l)"
    and before: "load_docs pre docs = (docs', None)"
  shows "load_file content = Inl IndexError \<and>
         load_docs (pre @ content # files) docs = (docs', Some IndexError)"
proof -
  from malformed have "\<not> well_formed content"
    by (auto simp: well_formed_def list_all_iff)
  then obtain i where "i < 8" "\<not> (i < length (readlines content) \<and> has_separator (readlines content ! i))"
    unfolding well_formed_iff by blast
  then have "load_file content = Inl IndexError"
    by (rule load_file_malformed)
  then show ?thesis
    by (simp add: load_docs_append before)
qed


theorem load_file_rating_witness:
  "well_formed (file_with_rating ''nan'') \<and> rating_value (file_with_rating ''nan'') = ''nan'' \<and>
   (\<exists>d. load_file (file_with_rating ''nan'') = Inr d \<and> rating (metadata d) = Finite 0)"
proof -
  have wf: "well_formed (file_with_rating ''nan'')"
    by code_simp
  have rv: "rating_value (file_with_rating ''nan'') = ''nan''"
    by code_simp
  from load_file_rating [OF wf] wf rv show ?thesis by simp
qed

text \<open>
  A rating that is not numeric is not coerced to zero: the file below is well formed, its
  rating value is \<^verbatim>\<open>abc\<close>, and loading it raises \<^verbatim>\<open>ValueError\<close>.
\<close>

theorem non_numeric_rating_counterexample:
  "well_formed (file_with_rating ''abc'') \<and> rating_value (file_with_rating ''abc'') = ''abc'' \<and>
   load_file (file_with_rating ''abc'') = Inl ValueError"
  by code_simp

theorem malformed_file_stops_load_witness:
  "length (readlines short_file) < 8 \<and>
   fst (load_docs [file_with_rating ''7.7''] []) = [toy_story] \<and>
   load_file short_file = Inl IndexError \<and>
   load_docs ([file_with_rating ''7.7''] @ short_file # [file_with_rating ''nan'']) [] =
     ([toy_story], Some IndexError)"
proof -
  have h1: "length (readlines short_file) < 8"
    by code_simp
  have h2: "load_docs [file_with_rating ''7.7''] [] = ([toy_story], None)"
    by code_simp
  from malformed_file_stops_load [OF disjI1 [OF h1] h2, of "[file_with_rating ''nan'']"] h1 h2
  show ?thesis by simp
qed

text \<open>
  The load does not continue after a malformed file: with a two-line file first and a well
  formed file second, the loop ends with \<^verbatim>\<open>IndexError\<close> and \<^verbatim>\<open>docs\<close> is empty, although
  the second file alone loads.
\<close>

theorem load_continues_counterexample:
  "length (readlines short_file) < 8 \<and>
   load_docs [file_with_rating ''7.7''] [] = ([toy_story], None) \<and>
   load_docs [short_file, file_with_rating ''7.7''] [] = ([], Some IndexError)"
  by code_simp

subsection \<open>The LLM client\<close>

lemma subscripts_need_field:
  assumes "subscript_int v 0 = Inr first" and "subscript_str first ''generated_text'' = Inr t"
  shows "has_generated_text v"
proof -
  from assms(2) obtain d where first: "first = PDict d" and d: "map_of d ''generated_text'' \<noteq> None"
    by (cases first) (auto split: option.splits)
  from assms(1) first obtain rest where "v = PList (PDict d # rest)"
  proof (cases v)
    case (PList xs)
    with assms(1) first that show ?thesis
      by (cases xs) (auto simp: list_index_def)
  next
    case (PStr s)
    with assms(1) first show ?thesis
      by (auto split: sum.splits)
  qed auto
  with d show ?thesis by simp
qed

lemma decoder_errors:
  "subscript_int v i = Inl e \<Longrightarrow> e \<in> {IndexError, KeyError, TypeError}"
  "subscript_str v k = Inl e \<Longrightarrow> e \<in> {IndexError, KeyError, TypeError}"
  by (cases v; auto simp: list_index_def Let_def split: if_splits sum.splits option.splits)+

text \<open>
  Claim C5, as the code has it. For every response body that does not decode to a value
  with the generated-text field where the decoder reads it, \<^verbatim>\<open>transform_output\<close> raises
  and returns no string, neither a partial nor an empty one. The exception is the one of
  the failing step: that of \<^verbatim>\<open>json.loads\<close> when the body does not decode, and otherwise
  the \<^verbatim>\<open>KeyError\<close>, \<^verbatim>\<open>IndexError\<close> or \<^verbatim>\<open>TypeError\<close> of the failing subscript. The code defines
  and raises no InferenceError.
\<close>

theorem transform_output_missing_field:
  assumes "\<forall>response_json. loads output = Inr response_json \<longrightarrow> \<not> has_generated_text response_json"
  shows "\<exists>e. transform_output loads output = Inl e \<and>
           (\<forall>response_json. loads output = Inr response_json \<longrightarrow>
              e \<in> {IndexError, KeyError, TypeError}) \<and>
           (\<forall>e'. loads output = Inl e' \<longrightarrow> e = e')"
proof (cases "loads output")
  case (Inl e)
  then show ?thesis
    by (simp add: transform_output_def)
next
  case decoded: (Inr response_json)
  with assms have lacks: "\<not> has_generated_text response_json"
    by simp
  show ?thesis
  proof (cases "subscript_int response_json 0")
    case (Inl e)
    with decoded decoder_errors(1) [OF Inl] show ?thesis
      by (simp add: transform_output_def)
  next
    case (Inr first)
    show ?thesis
    proof (cases "subscript_str first ''generated_text''")
      case (Inl e)
      with decoded Inr decoder_errors(2) [OF Inl] show ?thesis
        by (simp add: transform_output_def)
    next
      case found: (Inr t)
      from subscripts_need_field [OF Inr found] lacks show ?thesis by simp
    qed
  qed
qed

text \<open>
  On the response body of the scenario the decoder does not raise InferenceError: the
  decoded value is a dict, its subscript \<^verbatim>\<open>[0]\<close> raises \<^verbatim>\<open>KeyError\<close>, and that
  \<^verbatim>\<open>KeyError\<close> is what \<^verbatim>\<open>transform_output\<close> raises.
\<close>

theorem inference_error_counterexample:
  "loads_scenario not_generated_body = Inr (PDict [(''not_generated_text'', PStr ''x'')]) \<and>
   subscript_int (PDict [(''not_generated_text'', PStr ''x'')]) 0 = Inl KeyError \<and>
   transform_output loads_scenario not_generated_body = Inl KeyError"
  by (simp add: transform_output_def loads_scenario_def)

lemma transform_output_returns:
  assumes "loads output = Inr response_json" and "has_generated_text response_json"
  shows "\<exists>t. transform_output loads output = Inr t"
  using assms
  by (cases response_json rule: has_generated_text.cases)
     (auto simp: transform_output_def list_index_def split: option.splits)

theorem transform_output_missing_field_witness:
  "loads_scenario not_generated_body = Inr (PDict [(''not_generated_text'', PStr ''x'')]) \<and>
   \<not> has_generated_text (PDict [(''not_generated_text'', PStr ''x'')]) \<and>
   transform_output loads_scenario not_generated_body = Inl KeyError"
proof -
  have h1: "loads_scenario not_generated_body = Inr (PDict [(''not_generated_text'', PStr ''x'')])"
    by (simp add: loads_scenario_def)
  have h2: "\<not> has_generated_text (PDict [(''not_generated_text'', PStr ''x'')])"
    by simp
  have h: "\<forall>response_json. loads_scenario not_generated_body = Inr response_json \<longrightarrow>
             \<not> has_generated_text response_json"
    using h1 h2 by simp
  have "transform_output loads_scenario not_generated_body = Inl KeyError"
    by (simp add: transform_output_def h1)
  with transform_output_missing_field [of loads_scenario not_generated_body, OF h] h1 h2
  show ?thesis by simp
qed

text \<open>
  The parameters object of a request built from \<^verbatim>\<open>model_params\<close> has six entries:
  \<^verbatim>\<open>do_sample\<close> is sent too.
\<close>

theorem request_parameters_counterexample:
  "dict_keys (request_parameters model_params) =
     [''do_sample'', ''top_p'', ''temperature'', ''max_new_tokens'', ''stop'', ''repetition_penalty''] \<and>
   ''do_sample'' \<notin> {''temperature'', ''top_p'', ''max_new_tokens'', ''stop'', ''repetition_penalty''}"
  by (simp add: dict_keys_def request_parameters_def model_params_def)

text \<open>
  Claim C6, as the code has it. For every prompt and every \<^verbatim>\<open>model_kwargs\<close>, the request
  body is the JSON text of a dict with exactly the keys \<^verbatim>\<open>inputs\<close> and \<^verbatim>\<open>parameters\<close>:
  \<^verbatim>\<open>inputs\<close> is the JSON text of the instruction list (the fixed system message and the
  prompt as user message), \<^verbatim>\<open>parameters\<close> holds the entries of \<^verbatim>\<open>model_kwargs\<close> unchanged.
  With the configured \<^verbatim>\<open>model_params\<close> these are \<^verbatim>\<open>do_sample\<close>, \<^verbatim>\<open>top_p\<close>,
  \<^verbatim>\<open>temperature\<close>, \<^verbatim>\<open>max_new_tokens\<close>, \<^verbatim>\<open>stop\<close> and \<^verbatim>\<open>repetition_penalty\<close>.
\<close>

theorem transform_input_envelope:
  "transform_input dumps prompt model_kwargs = dumps (request_payload dumps prompt model_kwargs) \<and>
   dict_keys (request_payload dumps prompt model_kwargs) = [''inputs'', ''parameters''] \<and>
   subscript_str (request_payload dumps prompt model_kwargs) ''inputs'' =
     Inr (PStr (dumps (PList [PList
       [PDict [(''role'', PStr ''system''), (''content'', PStr ''You are a movie assistant.'')],
        PDict [(''role'', PStr ''user''), (''content'', PStr prompt)]]]))) \<and>
   subscript_str (request_payload dumps prompt model_kwargs) ''parameters'' = Inr (PDict model_kwargs) \<and>
   dict_keys (request_parameters model_params) =
     [''do_sample'', ''top_p'', ''temperature'', ''max_new_tokens'', ''stop'', ''repetition_penalty'']"
  by (simp add: transform_input_def request_payload_def request_parameters_def dict_keys_def
      model_params_def)

subsection \<open>The chat widget\<close>

lemma chat_turn:
  assumes "self_name s = Some n" and "self_b s = Some k"
    and "t_value (texts s ! n) = prompt" and "prompt \<noteq> []"
    and "prompt \<notin> {''q'', ''quit'', ''Q''}"
    and "qa (qa_memory s) prompt = (outcome, m)"
  shows "chat qa s =
     Inr (s\<lparr>qa_memory := m,
            self_name := Some (length (texts s)),
            self_b := Some (length (buttons s)),
            texts := (texts s)[n := (texts s ! n)\<lparr>t_disabled := True\<rparr>] @
                       [\<lparr>t_value = [], t_disabled = False\<rparr>],
            buttons := (buttons s)[k := (buttons s ! k)\<lparr>b_disabled := True\<rparr>] @
                       [\<lparr>b_disabled = False\<rparr>],
            labels := labels s @ [[]],
            self_out := self_out s @ Show_Label (length (labels s)) #
                          (case outcome of Inl e \<Rightarrow> [Printed_Exception e] | Inr a \<Rightarrow> []) @
                          [Printed (''AI: '' @ (case outcome of Inl e \<Rightarrow> ''No answer'' | Inr a \<Rightarrow> a)),
                           Show_Box (length (texts s)) (length (buttons s))]\<rparr>)"
  using assms
  by (cases outcome)
     (auto simp: chat_def process_turn_def new_input_box_def Let_def)

lemma chat_quit:
  assumes "self_name s = Some n" and "t_value (texts s ! n) \<in> {''q'', ''quit'', ''Q''}"
  shows "chat qa s = Inr (s\<lparr>stdout := stdout s @ [''Thank you , that was a nice chat !!'']\<rparr>)"
  using assms by (auto simp: chat_def Let_def)

lemma chat_ok:
  assumes "ux_ok s"
  shows "\<exists>s'. chat qa s = Inr s' \<and> ux_ok s'"
proof (cases "self_name s")
  case None
  then show ?thesis
    by (simp add: chat_def new_input_box_def ux_ok_def)
next
  case (Some n)
  with assms obtain k where k: "self_b s = Some k" "n < length (texts s)" "k < length (buttons s)"
    by (auto simp: ux_ok_def split: option.splits)
  let ?p = "t_value (texts s ! n)"
  consider "?p \<in> {''q'', ''quit'', ''Q''}" | "?p = []" | "?p \<noteq> []" "?p \<notin> {''q'', ''quit'', ''Q''}"
    by blast
  then show ?thesis
  proof cases
    case 1
    from chat_quit [OF Some 1] assms Some k show ?thesis
      by (simp add: ux_ok_def)
  next
    case 2
    with Some assms show ?thesis
      by (simp add: chat_def new_input_box_def Let_def)
  next
    case 3
    obtain outcome m where "qa (qa_memory s) ?p = (outcome, m)"
      by (cases "qa (qa_memory s) ?p")
    from chat_turn [where prompt = ?p and qa = qa, OF Some k(1) refl 3 this] show ?thesis
      by (simp add: ux_ok_def)
  qed
qed

lemma ui_step_ok:
  assumes "ux_ok s"
  shows "\<exists>s'. ui_step qa s ev = Inr s' \<and> ux_ok s'"
proof (cases ev)
  case (Type_Text i v)
  with assms show ?thesis
    by (auto simp: ui_step_def ux_ok_def split: option.splits)
next
  case (Click k)
  with assms chat_ok [OF assms, of qa] show ?thesis
    by (auto simp: ui_step_def)
qed

lemma run_ok:
  "ux_ok s \<Longrightarrow> \<exists>s'. run qa evs s = Inr s' \<and> ux_ok s'"
proof (induction evs arbitrary: s)
  case Nil
  then show ?case by simp
next
  case (Cons ev evs)
  from ui_step_ok [OF Cons.prems, of qa ev] obtain s1 where "ui_step qa s ev = Inr s1" "ux_ok s1"
    by blast
  with Cons.IH [of s1] show ?case by simp
qed

lemma session_ok: "\<exists>s. session qa m evs = Inr s \<and> ux_ok s"
proof -
  have "ux_ok (ChatUX_init m\<lparr>stdout := stdout (ChatUX_init m) @ [''Let'' @ [CHR 0x27] @ ''s chat!'']\<rparr>)"
    by (simp add: ux_ok_def ChatUX_init_def)
  from chat_ok [OF this, of qa] obtain s0 where "start_chat qa (ChatUX_init m) = Inr s0" "ux_ok s0"
    by (auto simp: start_chat_def)
  with run_ok [of s0 qa evs] show ?thesis
    by (simp add: session_def)
qed


lemma session_typed: "session qa m [Type_Text 0 v] = Inr (typed_state v m)"
  by (simp add: session_def start_chat_def chat_def new_input_box_def ChatUX_init_def ui_step_def
      typed_state_def)

text \<open>
  Claim C3, as the code has it. When the text in the input box is exactly \<^verbatim>\<open>q\<close>, \<^verbatim>\<open>quit\<close>
  or \<^verbatim>\<open>Q\<close>, the handler prints its farewell and returns: the chain is not called for
  that input, nothing is written to the output widget, no widget is created, and no widget
  is disabled.
\<close>

theorem quit_sentinel_returns:
  assumes "self_name s = Some n" and "t_value (texts s ! n) \<in> {''q'', ''quit'', ''Q''}"
  shows "chat qa s = Inr (s\<lparr>stdout := stdout s @ [''Thank you , that was a nice chat !!'']\<rparr>)"
  using assms by (rule chat_quit)

theorem quit_sentinel_returns_witness:
  "self_name (typed_state ''quit'' []) = Some 0 \<and>
   t_value (texts (typed_state ''quit'' []) ! 0) = ''quit'' \<and>
   chat logging_qa (typed_state ''quit'' []) =
     Inr ((typed_state ''quit'' [])\<lparr>stdout := stdout (typed_state ''quit'' []) @
                                        [''Thank you , that was a nice chat !!'']\<rparr>)"
proof -
  have h1: "self_name (typed_state ''quit'' ([] :: string list)) = Some 0"
    by (simp add: typed_state_def)
  have h2: "t_value (texts (typed_state ''quit'' ([] :: string list)) ! 0) \<in> {''q'', ''quit'', ''Q''}"
    by (simp add: typed_state_def)
  from quit_sentinel_returns [OF h1 h2, of logging_qa] h1 show ?thesis
    by (simp add: typed_state_def)
qed

text \<open>
  The quit words are not compared case-insensitively, and quitting disables nothing:
  \<^verbatim>\<open>QUIT\<close> is passed to the chain as a question; after \<^verbatim>\<open>q\<close> the chat still awaits input,
  and a question typed into the same box and sent is passed to the chain.
\<close>

theorem quit_sentinel_counterexample:
  "map_sum id qa_memory (session logging_qa [] [Type_Text 0 ''QUIT'', Click 0]) = Inr [''QUIT''] \<and>
   map_sum id awaiting_input (session logging_qa [] [Type_Text 0 ''q'', Click 0]) = Inr True \<and>
   map_sum id qa_memory
     (session logging_qa [] [Type_Text 0 ''q'', Click 0, Type_Text 0 ''hello'', Click 0]) =
     Inr [''hello'']"
  by (simp add: session_def start_chat_def chat_def new_input_box_def ChatUX_init_def ui_step_def
      process_turn_def logging_qa_def awaiting_input_def Let_def)

text \<open>
  Claim C4. When the chain raises an exception during a turn, the handler catches it,
  prints the exception and then \<^verbatim>\<open>AI: No answer\<close> to the output widget, disables the used
  text box and button and shows a fresh pair, so that the chat awaits input again; no
  exception leaves the handler, and the chain has been called once (its state is the one
  that single call left).
\<close>

theorem chat_exception_no_answer:
  assumes "ux_ok s" and "self_name s = Some n" and "self_b s = Some k"
    and "t_value (texts s ! n) = prompt" and "prompt \<noteq> []"
    and "prompt \<notin> {''q'', ''quit'', ''Q''}"
    and "qa (qa_memory s) prompt = (Inl e, m)"
  shows "\<exists>s'. chat qa s = Inr s' \<and>
           self_out s' = self_out s @ [Show_Label (length (labels s)), Printed_Exception e,
                                        Printed ''AI: No answer'',
                                        Show_Box (length (texts s)) (length (buttons s))] \<and>
           awaiting_input s' \<and> t_value (texts s' ! the (self_name s')) = [] \<and>
           t_disabled (texts s' ! n) \<and> b_disabled (buttons s' ! k) \<and>
           qa_memory s' = m"
proof -
  from assms(1-3) have valid: "n < length (texts s)" "k < length (buttons s)"
    by (simp_all add: ux_ok_def)
  from chat_turn [where qa = qa, OF assms(2-7)] valid show ?thesis
    by (simp add: awaiting_input_def nth_append)
qed

theorem chat_exception_no_answer_witness:
  "ux_ok (typed_state ''hello'' (0::nat)) \<and>
   raising_qa (qa_memory (typed_state ''hello'' (0::nat))) ''hello'' =
     (Inl (Raised ''endpoint unreachable''), 1) \<and>
   (\<exists>s'. chat raising_qa (typed_state ''hello'' 0) = Inr s' \<and>
      self_out s' = [Show_Box 0 0, Show_Label 0, Printed_Exception (Raised ''endpoint unreachable''),
                     Printed ''AI: No answer'', Show_Box 1 1] \<and>
      awaiting_input s' \<and> qa_memory s' = 1)"
proof -
  let ?s = "typed_state ''hello'' (0::nat)"
  have h1: "ux_ok ?s" by (simp add: ux_ok_def typed_state_def)
  have h2: "self_name ?s = Some 0" by (simp add: typed_state_def)
  have h3: "self_b ?s = Some 0" by (simp add: typed_state_def)
  have h4: "t_value (texts ?s ! 0) = ''hello''" by (simp add: typed_state_def)
  have h5: "''hello'' \<noteq> []" by simp
  have h6: "''hello'' \<notin> {''q'', ''quit'', ''Q''}" by simp
  have h7: "raising_qa (qa_memory ?s) ''hello'' = (Inl (Raised ''endpoint unreachable''), 1)"
    by (simp add: raising_qa_def typed_state_def)
  from chat_exception_no_answer [where qa = raising_qa, OF h1 h2 h3 h4 h5 h6 h7] h1 h7 show ?thesis
    by (auto simp: typed_state_def)
qed

subsection \<open>The prompt template and the retrieval chain\<close>

lemma substitute_literal:
  "CHR ''{'' \<notin> set pre \<Longrightarrow>
   substitute None (pre @ rest) slots =
     (case substitute None rest slots of Inl e \<Rightarrow> Inl e | Inr r \<Rightarrow> Inr (pre @ r))"
  by (induction pre) (auto split: sum.splits)

lemma substitute_name:
  "CHR ''}'' \<notin> set name \<Longrightarrow>
   substitute (Some acc) (name @ CHR ''}'' # rest) slots =
     (case slots (acc @ name) of
        None \<Rightarrow> Inl TemplateError
      | Some v \<Rightarrow> (case substitute None rest slots of Inl e \<Rightarrow> Inl e | Inr r \<Rightarrow> Inr (v @ r)))"
  by (induction name arbitrary: acc) auto

lemma substitute_slot:
  "CHR ''}'' \<notin> set name \<Longrightarrow>
   substitute None (CHR ''{'' # name @ CHR ''}'' # rest) slots =
     (case slots name of
        None \<Rightarrow> Inl TemplateError
      | Some v \<Rightarrow> (case substitute None rest slots of Inl e \<Rightarrow> Inl e | Inr r \<Rightarrow> Inr (v @ r)))"
  using substitute_name [of name "[]" rest slots] by simp

lemma prompt_template_parts:
  "prompt_template =
     template_head @ (CHR ''{'' # ''context'' @ CHR ''}'' # template_mid @
       (CHR ''{'' # ''chat_history'' @ CHR ''}'' # template_tail @
         (CHR ''{'' # ''question'' @ CHR ''}'' # [])))"
  by (simp add: template_tail_def template_head_def template_mid_def prompt_template_def)

lemma template_literals:
  "CHR ''{'' \<notin> set template_head" "CHR ''{'' \<notin> set template_mid" "CHR ''{'' \<notin> set template_tail"
  by (simp_all add: template_tail_def template_head_def template_mid_def)

lemma slot_names:
  "CHR ''}'' \<notin> set ''context''" "CHR ''}'' \<notin> set ''chat_history''" "CHR ''}'' \<notin> set ''question''"
  by simp_all

lemma assemble_prompt_cases:
  "assemble_prompt slots =
     (case slots ''context'' of
        None \<Rightarrow> Inl TemplateError
      | Some c \<Rightarrow>
          (case slots ''chat_history'' of
             None \<Rightarrow> Inl TemplateError
           | Some h \<Rightarrow>
               (case slots ''question'' of
                  None \<Rightarrow> Inl TemplateError
                | Some q \<Rightarrow> Inr (template_head @ c @ template_mid @ h @ template_tail @ q))))"
  unfolding assemble_prompt_def prompt_template_parts
  apply (subst substitute_literal [OF template_literals(1)])
  apply (subst substitute_slot [OF slot_names(1)])
  apply (subst substitute_literal [OF template_literals(2)])
  apply (subst substitute_slot [OF slot_names(2)])
  apply (subst substitute_literal [OF template_literals(3)])
  apply (subst substitute_slot [OF slot_names(3)])
  apply (simp split: option.splits)
  done

lemma conversational_chain_snd:
  "snd (conversational_chain env memory question) =
     memory @ completed_turns [question] [fst (conversational_chain env memory question)]"
  by (simp add: conversational_chain_def split: sum.splits)

lemma conversational_chain_memory:
  "conversational_chain env memory question = (outcome, memory') \<Longrightarrow>
   memory' = memory @ completed_turns [question] [outcome]"
  using conversational_chain_snd [of env memory question] by simp

lemma completed_turns_Cons:
  "completed_turns (q # qs) (r # rs) = completed_turns [q] [r] @ completed_turns qs rs"
  by (cases r) simp_all

lemma run_chain_length:
  "run_chain env memory qs = (outcomes, memory') \<Longrightarrow> length outcomes = length qs"
  by (induction qs arbitrary: memory outcomes memory') (auto split: prod.splits)

lemma run_chain_memory:
  "run_chain env memory qs = (outcomes, memory') \<Longrightarrow>
   memory' = memory @ completed_turns qs outcomes"
proof (induction qs arbitrary: memory outcomes memory')
  case Nil
  then show ?case by simp
next
  case (Cons q qs)
  obtain r m1 where step: "conversational_chain env memory q = (r, m1)"
    by (cases "conversational_chain env memory q")
  obtain rs m2 where rest: "run_chain env m1 qs = (rs, m2)"
    by (cases "run_chain env m1 qs")
  from Cons.prems step rest have eq: "outcomes = r # rs" "memory' = m2"
    by simp_all
  from conversational_chain_memory [OF step] Cons.IH [OF rest] eq show ?case
    by (simp add: completed_turns_Cons [of q qs r rs])
qed

lemma completed_turns_all:
  "length outcomes = length qs \<Longrightarrow> list_all (\<lambda>r. \<not> isl r) outcomes \<Longrightarrow>
   completed_turns qs outcomes = zip qs (map projr outcomes)"
  by (induction qs outcomes rule: completed_turns.induct) auto


text \<open>
  Claim C7. A prompt assembly in which one of the three declared input variables
  (\<^verbatim>\<open>chat_history\<close>, \<^verbatim>\<open>context\<close>, \<^verbatim>\<open>question\<close>) has no value fails with TemplateError,
  and no prompt is assembled.
\<close>

theorem assemble_prompt_missing_slot:
  assumes "v \<in> set input_variables" and "slots v = None"
  shows "assemble_prompt slots = Inl TemplateError"
  using assms by (auto simp: input_variables_def assemble_prompt_cases split: option.splits)

theorem assemble_prompt_missing_slot_witness:
  "''chat_history'' \<in> set input_variables \<and>
   [''context'' \<mapsto> ''Toy Story (1995)'', ''question'' \<mapsto> ''Who is Woody?''] ''chat_history'' = None \<and>
   assemble_prompt [''context'' \<mapsto> ''Toy Story (1995)'', ''question'' \<mapsto> ''Who is Woody?''] =
     Inl TemplateError"
proof -
  let ?slots = "[''context'' \<mapsto> ''Toy Story (1995)'', ''question'' \<mapsto> ''Who is Woody?'']"
  have h1: "''chat_history'' \<in> set input_variables"
    by (simp add: input_variables_def)
  have h2: "?slots ''chat_history'' = None"
    by simp
  from assemble_prompt_missing_slot [of "''chat_history''" ?slots, OF h1 h2] h1 h2 show ?thesis
    by blast
qed

lemma assemble_prompt_complete:
  assumes "slots ''context'' = Some c" and "slots ''chat_history'' = Some h"
    and "slots ''question'' = Some q"
  shows "assemble_prompt slots = Inr (template_head @ c @ template_mid @ h @ template_tail @ q)"
  using assms by (simp add: assemble_prompt_cases)

text \<open>
  Claim C8. The memory only grows at its end: after a sequence of turns it is the memory
  before them followed by one (question, answer) pair for each turn that completed, in
  the order of the turns. When all N turns complete, these are N pairs, the questions in
  the order asked, each with its answer.
\<close>

theorem memory_after_turns:
  assumes "run_chain env memory qs = (outcomes, memory')"
  shows "memory' = memory @ completed_turns qs outcomes \<and>
         (list_all (\<lambda>r. \<not> isl r) outcomes \<longrightarrow>
            completed_turns qs outcomes = zip qs (map projr outcomes) \<and>
            length (completed_turns qs outcomes) = length qs)"
proof -
  from assms have len: "length outcomes = length qs"
    by (rule run_chain_length)
  from assms have mem: "memory' = memory @ completed_turns qs outcomes"
    by (rule run_chain_memory)
  from len mem show ?thesis
    by (simp add: completed_turns_all)
qed

theorem memory_after_turns_witness:
  "run_chain echo_env [] [''Who is Woody?'', ''When was it released?''] =
     ([Inr ''User question: Who is Woody?'', Inr ''User question: When was it released?''],
      [(''Who is Woody?'', ''User question: Who is Woody?''),
       (''When was it released?'', ''User question: When was it released?'')]) \<and>
   list_all (\<lambda>r. \<not> isl r)
     [Inr ''User question: Who is Woody?'', Inr ''User question: When was it released?''] \<and>
   completed_turns [''Who is Woody?'', ''When was it released?'']
     [Inr ''User question: Who is Woody?'', Inr ''User question: When was it released?''] =
     [(''Who is Woody?'', ''User question: Who is Woody?''),
      (''When was it released?'', ''User question: When was it released?'')]"
proof -
  have h: "run_chain echo_env [] [''Who is Woody?'', ''When was it released?''] =
     ([Inr ''User question: Who is Woody?'', Inr ''User question: When was it released?''],
      [(''Who is Woody?'', ''User question: Who is Woody?''),
       (''When was it released?'', ''User question: When was it released?'')])"
    by code_simp
  from memory_after_turns [OF h] h show ?thesis
    by simp
qed

text \<open>
  Claim C10. When the chain raises during a chat turn, the memory after the turn is the
  memory before it: neither the question nor the \<^verbatim>\<open>No answer\<close> that the handler prints
  is appended. The next prompt is therefore assembled from the answered turns only.
\<close>

theorem failed_turn_leaves_memory:
  assumes "self_name s = Some n" and "self_b s = Some k"
    and "t_value (texts s ! n) = prompt" and "prompt \<noteq> []"
    and "prompt \<notin> {''q'', ''quit'', ''Q''}"
    and "fst (conversational_chain env (qa_memory s) prompt) = Inl e"
  shows "\<exists>s'. chat (conversational_chain env) s = Inr s' \<and>
           qa_memory s' = qa_memory s \<and>
           self_out s' = self_out s @ [Show_Label (length (labels s)), Printed_Exception e,
                                        Printed ''AI: No answer'',
                                        Show_Box (length (texts s)) (length (buttons s))]"
proof -
  obtain m where call: "conversational_chain env (qa_memory s) prompt = (Inl e, m)"
    using assms(6) by (cases "conversational_chain env (qa_memory s) prompt") simp
  from conversational_chain_memory [OF call] have m: "m = qa_memory s"
    by simp
  from chat_turn [where qa = "conversational_chain env", OF assms(1-5) call] m show ?thesis
    by simp
qed

theorem failed_turn_leaves_memory_witness:
  "fst (conversational_chain flaky_env
          (qa_memory (typed_state ''Jumanji'' [(''Who is Woody?'', ''A toy.'')])) ''Jumanji'') =
     Inl (Raised ''timeout'') \<and>
   (\<exists>s'. chat (conversational_chain flaky_env)
            (typed_state ''Jumanji'' [(''Who is Woody?'', ''A toy.'')]) = Inr s' \<and>
      qa_memory s' = [(''Who is Woody?'', ''A toy.'')] \<and>
      self_out s' = [Show_Box 0 0, Show_Label 0, Printed_Exception (Raised ''timeout''),
                     Printed ''AI: No answer'', Show_Box 1 1])"
proof -
  let ?s = "typed_state ''Jumanji'' [(''Who is Woody?'', ''A toy.'')]"
  have h1: "self_name ?s = Some 0" by (simp add: typed_state_def)
  have h2: "self_b ?s = Some 0" by (simp add: typed_state_def)
  have h3: "t_value (texts ?s ! 0) = ''Jumanji''" by (simp add: typed_state_def)
  have h4: "''Jumanji'' \<noteq> []" by simp
  have h5: "''Jumanji'' \<notin> {''q'', ''quit'', ''Q''}" by simp
  have "fst (conversational_chain flaky_env [(''Who is Woody?'', ''A toy.'')] ''Jumanji'') =
          Inl (Raised ''timeout'')"
    by code_simp
  then have h6: "fst (conversational_chain flaky_env (qa_memory ?s) ''Jumanji'') = Inl (Raised ''timeout'')"
    by (simp add: typed_state_def)
  from failed_turn_leaves_memory [where env = flaky_env, OF h1 h2 h3 h4 h5 h6] h6 show ?thesis
    by (simp add: typed_state_def)
qed

text \<open>A turn that the chain answers appends its pair and prints the answer.\<close>

lemma answered_turn_appends:
  assumes "self_name s = Some n" and "self_b s = Some k"
    and "t_value (texts s ! n) = prompt" and "prompt \<noteq> []"
    and "prompt \<notin> {''q'', ''quit'', ''Q''}"
    and "fst (conversational_chain env (qa_memory s) prompt) = Inr answer"
  shows "\<exists>s'. chat (conversational_chain env) s = Inr s' \<and>
           qa_memory s' = qa_memory s @ [(prompt, answer)] \<and>
           self_out s' = self_out s @ [Show_Label (length (labels s)), Printed (''AI: '' @ answer),
                                        Show_Box (length (texts s)) (length (buttons s))]"
proof -
  obtain m where call: "conversational_chain env (qa_memory s) prompt = (Inr answer, m)"
    using assms(6) by (cases "conversational_chain env (qa_memory s) prompt") simp
  from conversational_chain_memory [OF call] have m: "m = qa_memory s @ [(prompt, answer)]"
    by simp
  from chat_turn [where qa = "conversational_chain env", OF assms(1-5) call] m show ?thesis
    by simp
qed


end
